theory Spec2Isabelle
  imports Main
begin

section \<open>Python primitives used by the chat backend\<close>

text \<open>
  \<^verbatim>\<open>str(n)\<close> on a Python integer is its decimal numeral, with a leading minus sign for a
  negative number. The broker topic of a channel is \<^verbatim>\<open>f"chat:{channel_id}"\<close> and the member
  of the shared online set is \<^verbatim>\<open>str(user_id)\<close>.
\<close>

definition digit_char :: "nat \<Rightarrow> char" where
  "digit_char d = ''0123456789'' ! d"

function str_nat :: "nat \<Rightarrow> string" where
  "str_nat n = (if n < 10 then [digit_char n] else str_nat (n div 10) @ [digit_char (n mod 10)])"
  by pat_completeness auto
termination
  by (relation "measure id") auto

declare str_nat.simps [simp del]

definition py_str :: "int \<Rightarrow> string" where
  "py_str i = (if i < 0 then CHR ''-'' # str_nat (nat (- i)) else str_nat (nat i))"

definition chat_topic :: "int \<Rightarrow> string" where
  "chat_topic channel_id = ''chat:'' @ py_str channel_id"

text \<open>
  Starlette's \<^verbatim>\<open>WebSocketState\<close> is a plain \<^verbatim>\<open>enum.Enum\<close> with the four members below.
  The manager tests a socket with \<^verbatim>\<open>not websocket.client_state.DISCONNECTED\<close>. In Python,
  looking a member name up on a member of an enumeration yields that member of the class
  (whatever member one started from), and a member of a plain \<^verbatim>\<open>Enum\<close> is always truthy.
  \<open>member_DISCONNECTED\<close> is that attribute lookup and \<open>truthy\<close> is \<^verbatim>\<open>bool(...)\<close> on a member.
\<close>

datatype WebSocketState = CONNECTING | CONNECTED | DISCONNECTED | RESPONSE

definition member_DISCONNECTED :: "WebSocketState \<Rightarrow> WebSocketState" where
  "member_DISCONNECTED s = DISCONNECTED"

definition truthy :: "WebSocketState \<Rightarrow> bool" where
  "truthy s = True"

text \<open>The exceptions that the code below can meet, by the name of their class.\<close>

datatype py_exception =
  KeyError | TypeError | JSONDecodeError | ValidationError | SQLAlchemyError | OverflowError
  | ConnectionError

section \<open>Data model\<close>

datatype MessageStatus = SENT | DELIVERED | READ

fun status_value :: "MessageStatus \<Rightarrow> string" where
  "status_value SENT = ''sent''"
| "status_value DELIVERED = ''delivered''"
| "status_value READ = ''read''"

text \<open>The \<^verbatim>\<open>data\<close> dictionary of an outbound \<^verbatim>\<open>message\<close> frame (main.py, lines 192-202).\<close>

record message_data =
  d_id :: int
  d_content :: string
  d_sender_id :: int
  d_channel_id :: int
  d_status :: string
  d_created_at :: nat

text \<open>
  The dictionaries sent over a socket or published to the broker, by their
  \<^verbatim>\<open>message_type\<close>. The \<^verbatim>\<open>timestamp\<close> of the connection-status frame is wall-clock time
  and is left out.
\<close>

datatype event =
    ConnectionStatus string int
  | Notification string
  | MessageEvent message_data
  | ErrorEvent string

text \<open>
  A \<^verbatim>\<open>WebSocket\<close> object: its identity, the state of the client side, and how the transport
  answers the two calls the backend makes on it. The two flags are the environment: they
  say whether \<^verbatim>\<open>accept()\<close> and \<^verbatim>\<open>send_json()\<close> raise.
\<close>

record websocket =
  ws_id :: nat
  client_state :: WebSocketState
  accept_raises :: bool
  send_json_raises :: bool

text \<open>
  What the backend did on the sockets, in order: a handshake that was accepted, a frame
  that was written, a call of \<^verbatim>\<open>close\<close> with its code.
\<close>

datatype wire_io = WsAccept nat | WsSendJson nat event | WsClose nat int

definition WS_1008_POLICY_VIOLATION :: int where
  "WS_1008_POLICY_VIOLATION = 1008"

definition WS_1011_INTERNAL_ERROR :: int where
  "WS_1011_INTERNAL_ERROR = 1011"

section \<open>redis\_client.py\<close>

text \<open>
  \<open>pubsub_clients\<close> and \<open>callback_map\<close> are the two dictionaries of \<^verbatim>\<open>RedisClient\<close>. A
  \<^verbatim>\<open>PubSub\<close> object is a number; a callback is the channel id its closure broadcasts to.
  \<open>broker_subscriptions\<close> is the broker's side of the connection: the \<^verbatim>\<open>PubSub\<close> objects
  that are subscribed and not closed, each with its topic. \<open>redis_sets\<close> are the sets kept
  in the broker, by name, and \<open>published\<close> is what was published, in order.
  \<open>broker_down\<close> is the environment: while it holds, every call that needs the broker
  raises \<^verbatim>\<open>ConnectionError\<close>. A call returns \<open>Inr\<close> with the new state, or \<open>Inl\<close> with the
  exception and the state as the call left it.
\<close>

record RedisClient =
  pubsub_clients :: "string \<rightharpoonup> nat"
  callback_map :: "string \<rightharpoonup> int"
  broker_subscriptions :: "(nat \<times> string) list"
  next_pubsub :: nat
  redis_sets :: "string \<Rightarrow> string set"
  published :: "(string \<times> event) list"
  broker_down :: bool

definition publish :: "RedisClient \<Rightarrow> string \<Rightarrow> event \<Rightarrow> (py_exception \<times> RedisClient) + RedisClient" where
  "publish r channel message =
     (if broker_down r then Inl (ConnectionError, r)
      else Inr (r\<lparr>published := published r @ [(channel, message)]\<rparr>))"

text \<open>
  \<^verbatim>\<open>subscribe\<close> (lines 18-33) stores the callback before it asks the broker, so the
  callback stays when the broker cannot be reached.
\<close>

definition subscribe :: "RedisClient \<Rightarrow> string \<Rightarrow> int \<Rightarrow> (py_exception \<times> RedisClient) + RedisClient" where
  "subscribe r channel callback =
     (let r1 = r\<lparr>callback_map := (callback_map r)(channel \<mapsto> callback)\<rparr>
      in if broker_down r then Inl (ConnectionError, r1)
         else Inr (r1\<lparr>broker_subscriptions := broker_subscriptions r @ [(next_pubsub r, channel)],
                      pubsub_clients := (pubsub_clients r)(channel \<mapsto> next_pubsub r),
                      next_pubsub := Suc (next_pubsub r)\<rparr>))"

definition unsubscribe :: "RedisClient \<Rightarrow> string \<Rightarrow> (py_exception \<times> RedisClient) + RedisClient" where
  "unsubscribe r channel =
     (case pubsub_clients r channel of
        None \<Rightarrow> Inr r
      | Some pubsub \<Rightarrow>
          if broker_down r then Inl (ConnectionError, r)
          else Inr (r\<lparr>broker_subscriptions := filter (\<lambda>p. fst p \<noteq> pubsub) (broker_subscriptions r),
                      pubsub_clients := (pubsub_clients r)(channel := None),
                      callback_map := (callback_map r)(channel := None)\<rparr>))"

definition add_to_set :: "RedisClient \<Rightarrow> string \<Rightarrow> string \<Rightarrow> (py_exception \<times> RedisClient) + RedisClient" where
  "add_to_set r set_name v =
     (if broker_down r then Inl (ConnectionError, r)
      else Inr (r\<lparr>redis_sets := (redis_sets r)(set_name := insert v (redis_sets r set_name))\<rparr>))"

definition remove_from_set :: "RedisClient \<Rightarrow> string \<Rightarrow> string \<Rightarrow> (py_exception \<times> RedisClient) + RedisClient" where
  "remove_from_set r set_name v =
     (if broker_down r then Inl (ConnectionError, r)
      else Inr (r\<lparr>redis_sets := (redis_sets r)(set_name := redis_sets r set_name - {v})\<rparr>))"

definition get_set_members :: "RedisClient \<Rightarrow> string \<Rightarrow> string set" where
  "get_set_members r set_name = redis_sets r set_name"

definition redis_init :: RedisClient where
  "redis_init = \<lparr>pubsub_clients = Map.empty, callback_map = Map.empty, broker_subscriptions = [],
     next_pubsub = 0, redis_sets = (\<lambda>_. {}), published = [], broker_down = False\<rparr>"

section \<open>websocket\_manager.py: ConnectionManager\<close>

text \<open>
  The three dictionaries of the manager, the singleton \<^verbatim>\<open>redis_client\<close> it calls, and the
  frames written so far. The operations run one after the other, as they do under the
  manager's lock; interleavings of coroutines are not modelled.
\<close>

record world =
  active_connections :: "int \<rightharpoonup> (int \<rightharpoonup> websocket)"
  channel_subscribers :: "int \<rightharpoonup> int set"
  connection_status :: "int \<rightharpoonup> (int \<rightharpoonup> bool)"
  redis :: RedisClient
  wire :: "wire_io list"

definition init_world :: world where
  "init_world = \<lparr>active_connections = Map.empty, channel_subscribers = Map.empty,
     connection_status = Map.empty, redis = redis_init, wire = []\<rparr>"

definition session :: "world \<Rightarrow> int \<Rightarrow> int \<Rightarrow> websocket option" where
  "session w user_id channel_id =
     (case active_connections w user_id of None \<Rightarrow> None | Some conns \<Rightarrow> conns channel_id)"

definition subscribers_of :: "world \<Rightarrow> int \<Rightarrow> int set" where
  "subscribers_of w channel_id =
     (case channel_subscribers w channel_id of None \<Rightarrow> {} | Some S \<Rightarrow> S)"

definition online_users :: "world \<Rightarrow> string set" where
  "online_users w = get_set_members (redis w) ''online_users''"

text \<open>
  A call of the manager on \<^verbatim>\<open>redis_client\<close>: the state of the client is stored back
  either way; \<open>Inl\<close> says that the call raised.
\<close>

definition redis_call :: "world \<Rightarrow> (py_exception \<times> RedisClient) + RedisClient \<Rightarrow> world + world" where
  "redis_call w res =
     (case res of
        Inl (e, r) \<Rightarrow> Inl (w\<lparr>redis := r\<rparr>)
      | Inr r \<Rightarrow> Inr (w\<lparr>redis := r\<rparr>))"

text \<open>
  The \<^verbatim>\<open>except\<close> branch of \<^verbatim>\<open>connect\<close> (lines 74-80): the socket is closed with 1011 only
  if \<^verbatim>\<open>not websocket.client_state.DISCONNECTED\<close>.
\<close>

definition connect_except :: "world \<Rightarrow> websocket \<Rightarrow> world" where
  "connect_except w websocket =
     (if \<not> truthy (member_DISCONNECTED (client_state websocket))
      then w\<lparr>wire := wire w @ [WsClose (ws_id websocket) WS_1011_INTERNAL_ERROR]\<rparr>
      else w)"

text \<open>
  Lines 31-46, the part of \<^verbatim>\<open>connect\<close> under the lock. \<open>Inl\<close> is a \<^verbatim>\<open>KeyError\<close> raised by
  \<^verbatim>\<open>self.connection_status[user_id]\<close>, with the dictionaries as they are at that point.
\<close>

definition connect_locked :: "world \<Rightarrow> websocket \<Rightarrow> int \<Rightarrow> int \<Rightarrow> world + world" where
  "connect_locked w websocket user_id channel_id =
     (let w1 = (if user_id \<notin> dom (active_connections w)
                then w\<lparr>active_connections := (active_connections w)(user_id \<mapsto> Map.empty),
                       connection_status := (connection_status w)(user_id \<mapsto> Map.empty)\<rparr>
                else w);
          conns = (case active_connections w1 user_id of None \<Rightarrow> Map.empty | Some m \<Rightarrow> m);
          w2 = w1\<lparr>active_connections := (active_connections w1)(user_id \<mapsto> conns(channel_id \<mapsto> websocket))\<rparr>
      in case connection_status w2 user_id of
           None \<Rightarrow> Inl w2
         | Some st \<Rightarrow>
             (let w3 = w2\<lparr>connection_status := (connection_status w2)(user_id \<mapsto> st(channel_id \<mapsto> True))\<rparr>
              in Inr (w3\<lparr>channel_subscribers :=
                        (channel_subscribers w3)(channel_id \<mapsto> insert user_id (subscribers_of w3 channel_id))\<rparr>)))"

text \<open>
  \<^verbatim>\<open>connect\<close> (lines 26-80). Every exception is caught by the \<^verbatim>\<open>except\<close> branch, which
  undoes nothing.
\<close>

definition connect :: "world \<Rightarrow> websocket \<Rightarrow> int \<Rightarrow> int \<Rightarrow> world" where
  "connect w websocket user_id channel_id =
     (if accept_raises websocket then connect_except w websocket
      else
        case connect_locked (w\<lparr>wire := wire w @ [WsAccept (ws_id websocket)]\<rparr>) websocket user_id channel_id of
          Inl w1 \<Rightarrow> connect_except w1 websocket
        | Inr w1 \<Rightarrow>
            if send_json_raises websocket then connect_except w1 websocket
            else
              (let w2 = w1\<lparr>wire := wire w1 @
                          [WsSendJson (ws_id websocket) (ConnectionStatus ''connected'' channel_id)]\<rparr>
               in case channel_subscribers w2 channel_id of
                    None \<Rightarrow> connect_except w2 websocket
                  | Some S \<Rightarrow>
                      (case (if card S = 1
                             then redis_call w2 (subscribe (redis w2) (chat_topic channel_id) channel_id)
                             else Inr w2) of
                         Inl w3 \<Rightarrow> connect_except w3 websocket
                       | Inr w3 \<Rightarrow>
                           (case redis_call w3 (add_to_set (redis w3) ''online_users'' (py_str user_id)) of
                              Inl w4 \<Rightarrow> connect_except w4 websocket
                            | Inr w4 \<Rightarrow> w4))))"

text \<open>
  Lines 95-98 of \<^verbatim>\<open>disconnect\<close>: when the user's dictionary is empty, both entries of the
  user are deleted and the user leaves the online set. \<open>Inl\<close> is the \<^verbatim>\<open>KeyError\<close> of
  \<^verbatim>\<open>del self.connection_status[user_id]\<close>, or the exception of \<^verbatim>\<open>remove_from_set\<close>, with
  the dictionaries as they are at that point.
\<close>

definition cleanup_user :: "world \<Rightarrow> int \<Rightarrow> world + world" where
  "cleanup_user w user_id =
     (case active_connections w user_id of
        None \<Rightarrow> Inl w
      | Some conns \<Rightarrow>
          if dom conns = {} then
            (let w1 = w\<lparr>active_connections := (active_connections w)(user_id := None)\<rparr>
             in if user_id \<notin> dom (connection_status w1) then Inl w1
                else
                  (let w2 = w1\<lparr>connection_status := (connection_status w1)(user_id := None)\<rparr>
                   in redis_call w2 (remove_from_set (redis w2) ''online_users'' (py_str user_id))))
          else Inr w)"

text \<open>
  Lines 101-107: \<^verbatim>\<open>set.remove\<close> raises \<^verbatim>\<open>KeyError\<close> for a user who is not in the set, and
  \<^verbatim>\<open>unsubscribe\<close> can raise after the user was removed from the set, which then stays in
  the dictionary, empty; the \<^verbatim>\<open>except\<close> branch of \<^verbatim>\<open>disconnect\<close> swallows both.
\<close>

definition remove_subscriber :: "world \<Rightarrow> int \<Rightarrow> int \<Rightarrow> world" where
  "remove_subscriber w user_id channel_id =
     (case channel_subscribers w channel_id of
        None \<Rightarrow> w
      | Some S \<Rightarrow>
          if user_id \<notin> S then w
          else
            (let w1 = w\<lparr>channel_subscribers := (channel_subscribers w)(channel_id \<mapsto> S - {user_id})\<rparr>
             in if S - {user_id} = {}
                then (case redis_call w1 (unsubscribe (redis w1) (chat_topic channel_id)) of
                        Inl w2 \<Rightarrow> w2
                      | Inr w2 \<Rightarrow> w2\<lparr>channel_subscribers := (channel_subscribers w2)(channel_id := None)\<rparr>)
                else w1))"

text \<open>
  \<^verbatim>\<open>disconnect\<close> (lines 82-111). Every exception is caught by its \<^verbatim>\<open>except\<close> branch,
  which undoes nothing.
\<close>

definition disconnect :: "world \<Rightarrow> int \<Rightarrow> int \<Rightarrow> world" where
  "disconnect w user_id channel_id =
     (let w1 = (case connection_status w user_id of
                  None \<Rightarrow> w
                | Some st \<Rightarrow>
                    if channel_id \<in> dom st
                    then w\<lparr>connection_status := (connection_status w)(user_id \<mapsto> st(channel_id \<mapsto> False))\<rparr>
                    else w)
      in case active_connections w1 user_id of
           None \<Rightarrow> w1
         | Some conns \<Rightarrow>
             if channel_id \<notin> dom conns then w1
             else
               (let w2 = w1\<lparr>active_connections :=
                            (active_connections w1)(user_id \<mapsto> conns(channel_id := None))\<rparr>
                in case cleanup_user w2 user_id of
                     Inl w3 \<Rightarrow> w3
                   | Inr w3 \<Rightarrow> remove_subscriber w3 user_id channel_id))"

text \<open>
  \<^verbatim>\<open>send_personal_message\<close> (lines 113-131) returns the new state and the boolean result.
\<close>

definition send_personal_message :: "world \<Rightarrow> event \<Rightarrow> int \<Rightarrow> int \<Rightarrow> world \<times> bool" where
  "send_personal_message w message user_id channel_id =
     (case active_connections w user_id of
        None \<Rightarrow> (w, False)
      | Some conns \<Rightarrow>
          (case conns channel_id of
             None \<Rightarrow> (w, False)
           | Some websocket \<Rightarrow>
               if \<not> truthy (member_DISCONNECTED (client_state websocket)) then
                 (if send_json_raises websocket then (disconnect w user_id channel_id, False)
                  else (w\<lparr>wire := wire w @ [WsSendJson (ws_id websocket) message]\<rparr>, True))
               else (disconnect w user_id channel_id, False)))"

text \<open>
  \<^verbatim>\<open>broadcast_to_channel\<close> (lines 133-142). \<open>py_list\<close> is \<^verbatim>\<open>list(...)\<close> on a set: the order
  in which Python enumerates it. The loop runs over that list, made once before the first
  iteration. Next to the state the loop returns the values that \<^verbatim>\<open>user_id\<close> and
  \<^verbatim>\<open>success\<close> took in its iterations, in order.
\<close>

fun broadcast_loop :: "world \<Rightarrow> int \<Rightarrow> event \<Rightarrow> int list \<Rightarrow> world \<times> (int \<times> bool) list" where
  "broadcast_loop w channel_id message [] = (w, [])"
| "broadcast_loop w channel_id message (user_id # subscribers) =
     (let (w1, success) = send_personal_message w message user_id channel_id;
          w2 = (if \<not> success \<and> user_id \<in> subscribers_of w1 channel_id
                then disconnect w1 user_id channel_id else w1);
          (w3, sends) = broadcast_loop w2 channel_id message subscribers
      in (w3, (user_id, success) # sends))"

definition broadcast_to_channel ::
  "(int set \<Rightarrow> int list) \<Rightarrow> world \<Rightarrow> int \<Rightarrow> event \<Rightarrow> world \<times> (int \<times> bool) list" where
  "broadcast_to_channel py_list w channel_id message =
     (case channel_subscribers w channel_id of
        None \<Rightarrow> (w, [])
      | Some S \<Rightarrow> broadcast_loop w channel_id message (py_list S))"

text \<open>\<^verbatim>\<open>is_user_connected\<close> and \<^verbatim>\<open>is_user_in_channel\<close> (lines 144-154).\<close>

definition is_user_connected :: "world \<Rightarrow> int \<Rightarrow> bool" where
  "is_user_connected w user_id =
     (case connection_status w user_id of None \<Rightarrow> False | Some st \<Rightarrow> True \<in> ran st)"

definition is_user_in_channel :: "world \<Rightarrow> int \<Rightarrow> int \<Rightarrow> bool" where
  "is_user_in_channel w user_id channel_id =
     (case connection_status w user_id of
        None \<Rightarrow> False
      | Some st \<Rightarrow> (case st channel_id of None \<Rightarrow> False | Some b \<Rightarrow> b))"

text \<open>
  The transport of a registered socket changes outside the program: the peer goes away, a
  write starts to fail. \<open>transport_change\<close> is that step of the environment on the socket
  object stored for a session.
\<close>

definition transport_change :: "world \<Rightarrow> int \<Rightarrow> int \<Rightarrow> WebSocketState \<Rightarrow> bool \<Rightarrow> world" where
  "transport_change w user_id channel_id s b =
     (case active_connections w user_id of
        None \<Rightarrow> w
      | Some conns \<Rightarrow>
          (case conns channel_id of
             None \<Rightarrow> w
           | Some websocket \<Rightarrow>
               w\<lparr>active_connections := (active_connections w)
                   (user_id \<mapsto> conns(channel_id \<mapsto> websocket\<lparr>client_state := s, send_json_raises := b\<rparr>))\<rparr>))"

text \<open>
  Two more steps of the environment: the broker goes down or comes back, and the sets kept
  in the broker, which every server process shares, are written by another process.
\<close>

definition broker_change :: "world \<Rightarrow> bool \<Rightarrow> world" where
  "broker_change w b = w\<lparr>redis := (redis w)\<lparr>broker_down := b\<rparr>\<rparr>"

definition shared_sets_change :: "world \<Rightarrow> (string \<Rightarrow> string set) \<Rightarrow> world" where
  "shared_sets_change w sets = w\<lparr>redis := (redis w)\<lparr>redis_sets := sets\<rparr>\<rparr>"

text \<open>
  The states of a manager: what any sequence of its four operations, with any arguments,
  any behaviour of the sockets and of the broker, makes of the manager created by
  \<^verbatim>\<open>__init__\<close>.
\<close>

inductive reachable :: "world \<Rightarrow> bool" where
  init: "reachable init_world"
| connect: "reachable w \<Longrightarrow> reachable (connect w websocket user_id channel_id)"
| disconnect: "reachable w \<Longrightarrow> reachable (disconnect w user_id channel_id)"
| send: "reachable w \<Longrightarrow> reachable (fst (send_personal_message w message user_id channel_id))"
| broadcast: "reachable w \<Longrightarrow> reachable (fst (broadcast_to_channel py_list w channel_id message))"
| transport: "reachable w \<Longrightarrow> reachable (transport_change w user_id channel_id s b)"
| broker: "reachable w \<Longrightarrow> reachable (broker_change w b)"
| shared_sets: "reachable w \<Longrightarrow> reachable (shared_sets_change w sets)"

text \<open>
  What holds of the dictionaries in every such state: the two per-user dictionaries have
  the same users, no user is kept with an empty dictionary of sockets, and a status flag
  is \<^verbatim>\<open>True\<close> exactly for the registered sessions.
\<close>

definition manager_inv :: "world \<Rightarrow> bool" where
  "manager_inv w \<longleftrightarrow>
     dom (active_connections w) = dom (connection_status w)
     \<and> (\<forall>u conns. active_connections w u = Some conns \<longrightarrow> dom conns \<noteq> {})
     \<and> (\<forall>u st c. connection_status w u = Some st \<longrightarrow>
            (st c = Some True \<longleftrightarrow> session w u c \<noteq> None))"

section \<open>models.py and crud.py\<close>

datatype UserStatus = ONLINE | OFFLINE | AWAY

text \<open>
  The rows of the three tables, with the columns the delivery path reads. \<open>ch_members\<close>
  holds the ids of the members of a channel (the \<^verbatim>\<open>channel_members\<close> table).
\<close>

record db_user =
  u_id :: int
  u_username :: string
  u_status :: UserStatus

record db_channel =
  ch_id :: int
  ch_members :: "int list"

record db_message =
  m_id :: int
  m_content :: string
  m_status :: MessageStatus
  m_sender_id :: int
  m_channel_id :: int
  m_created_at :: nat

text \<open>
  The database behind a SQLAlchemy session: the tables, the next primary key of
  \<^verbatim>\<open>messages\<close>, the server's clock for \<^verbatim>\<open>func.now()\<close>, and the environment: whether a
  query, \<^verbatim>\<open>db.commit()\<close> and \<^verbatim>\<open>db.refresh()\<close> raise. A session whose commit raises is
  closed without its changes; what was committed stays when the refresh after it raises.
\<close>

record database =
  users :: "db_user list"
  channels :: "db_channel list"
  messages :: "db_message list"
  next_message_id :: int
  now :: nat
  query_raises :: bool
  commit_raises :: bool
  refresh_raises :: bool

text \<open>
  The engine is SQLite (database.py, line 7): an integer bound to a statement must fit 64
  bits, signed, and the driver raises \<^verbatim>\<open>OverflowError\<close> for any other Python integer.
\<close>

definition sqlite_integer :: "int \<Rightarrow> bool" where
  "sqlite_integer i \<longleftrightarrow> - (2 ^ 63) \<le> i \<and> i < 2 ^ 63"

text \<open>
  A query returns \<open>Inr\<close> with its result or \<open>Inl\<close> with the exception. A function that
  writes returns \<open>Inr\<close> with the new database and its result, or \<open>Inl\<close> with the
  exception and the database as the call left it.
\<close>

record MessageCreate =
  mc_content :: string
  mc_channel_id :: int

text \<open>\<^verbatim>\<open>get_user_by_username\<close> and \<^verbatim>\<open>get_channel\<close> (crud.py, lines 11-13 and 37-39).\<close>

definition get_user_by_username :: "database \<Rightarrow> string \<Rightarrow> py_exception + db_user option" where
  "get_user_by_username db username =
     (if query_raises db then Inl SQLAlchemyError
      else Inr (find (\<lambda>u. u_username u = username) (users db)))"

definition get_channel :: "database \<Rightarrow> int \<Rightarrow> py_exception + db_channel option" where
  "get_channel db channel_id =
     (if \<not> sqlite_integer channel_id then Inl OverflowError
      else if query_raises db then Inl SQLAlchemyError
      else Inr (find (\<lambda>ch. ch_id ch = channel_id) (channels db)))"

text \<open>\<open>update_first\<close> changes the row that \<^verbatim>\<open>.first()\<close> returned and no other.\<close>

fun update_first :: "('a \<Rightarrow> bool) \<Rightarrow> ('a \<Rightarrow> 'a) \<Rightarrow> 'a list \<Rightarrow> 'a list" where
  "update_first P f [] = []"
| "update_first P f (x # xs) = (if P x then f x # xs else x # update_first P f xs)"

text \<open>\<^verbatim>\<open>update_user_status\<close> (crud.py, lines 27-34).\<close>

definition update_user_status ::
  "database \<Rightarrow> int \<Rightarrow> UserStatus \<Rightarrow> (py_exception \<times> database) + (database \<times> db_user option)" where
  "update_user_status db user_id st =
     (if \<not> sqlite_integer user_id then Inl (OverflowError, db)
      else if query_raises db then Inl (SQLAlchemyError, db)
      else
        case find (\<lambda>u. u_id u = user_id) (users db) of
          None \<Rightarrow> Inr (db, None)
        | Some db_user \<Rightarrow>
            if commit_raises db then Inl (SQLAlchemyError, db)
            else
              (let db1 = db\<lparr>users := update_first (\<lambda>u. u_id u = user_id) (\<lambda>u. u\<lparr>u_status := st\<rparr>) (users db)\<rparr>
               in if refresh_raises db then Inl (SQLAlchemyError, db1)
                  else Inr (db1, Some (db_user\<lparr>u_status := st\<rparr>))))"

text \<open>
  \<^verbatim>\<open>create_message\<close> (crud.py, lines 102-113). The row is written by \<^verbatim>\<open>db.commit()\<close>, which
  binds the two ids; \<^verbatim>\<open>db.refresh()\<close> comes after it.
\<close>

definition create_message ::
  "database \<Rightarrow> MessageCreate \<Rightarrow> int \<Rightarrow> (py_exception \<times> database) + (database \<times> db_message)" where
  "create_message db message user_id =
     (let db_message = \<lparr>m_id = next_message_id db, m_content = mc_content message, m_status = SENT,
                         m_sender_id = user_id, m_channel_id = mc_channel_id message,
                         m_created_at = now db\<rparr>
      in if \<not> sqlite_integer user_id \<or> \<not> sqlite_integer (mc_channel_id message)
         then Inl (OverflowError, db)
         else if commit_raises db then Inl (SQLAlchemyError, db)
         else
           (let db1 = db\<lparr>messages := messages db @ [db_message],
                        next_message_id := next_message_id db + 1\<rparr>
            in if refresh_raises db then Inl (SQLAlchemyError, db1)
               else Inr (db1, db_message)))"

text \<open>\<^verbatim>\<open>update_message_status\<close> (crud.py, lines 126-133).\<close>

definition update_message_status ::
  "database \<Rightarrow> int \<Rightarrow> MessageStatus \<Rightarrow> (py_exception \<times> database) + (database \<times> db_message option)" where
  "update_message_status db message_id st =
     (if \<not> sqlite_integer message_id then Inl (OverflowError, db)
      else if query_raises db then Inl (SQLAlchemyError, db)
      else
        case find (\<lambda>m. m_id m = message_id) (messages db) of
          None \<Rightarrow> Inr (db, None)
        | Some db_message \<Rightarrow>
            if commit_raises db then Inl (SQLAlchemyError, db)
            else
              (let db1 = db\<lparr>messages := update_first (\<lambda>m. m_id m = message_id)
                                            (\<lambda>m. m\<lparr>m_status := st\<rparr>) (messages db)\<rparr>
               in if refresh_raises db then Inl (SQLAlchemyError, db1)
                  else Inr (db1, Some (db_message\<lparr>m_status := st\<rparr>))))"

text \<open>\<^verbatim>\<open>mark_messages_as_read\<close> (crud.py, lines 135-152).\<close>

definition unread_from_others :: "int \<Rightarrow> int \<Rightarrow> db_message \<Rightarrow> bool" where
  "unread_from_others channel_id user_id m \<longleftrightarrow>
     m_channel_id m = channel_id \<and> m_sender_id m \<noteq> user_id \<and> m_status m \<noteq> READ"

definition mark_messages_as_read ::
  "database \<Rightarrow> int \<Rightarrow> int \<Rightarrow> (py_exception \<times> database) + (database \<times> db_message list)" where
  "mark_messages_as_read db channel_id user_id =
     (let selected = filter (unread_from_others channel_id user_id) (messages db)
      in if \<not> sqlite_integer channel_id \<or> \<not> sqlite_integer user_id then Inl (OverflowError, db)
         else if query_raises db then Inl (SQLAlchemyError, db)
         else if commit_raises db then Inl (SQLAlchemyError, db)
         else Inr (db\<lparr>messages := map (\<lambda>m. if unread_from_others channel_id user_id m
                                              then m\<lparr>m_status := READ\<rparr> else m) (messages db)\<rparr>,
                   map (\<lambda>m. m\<lparr>m_status := READ\<rparr>) selected))"

text \<open>The order of the statuses, SENT before DELIVERED before READ.\<close>

fun status_rank :: "MessageStatus \<Rightarrow> nat" where
  "status_rank SENT = 0"
| "status_rank DELIVERED = 1"
| "status_rank READ = 2"

section \<open>auth.py and the handshake of the WebSocket endpoint\<close>

text \<open>
  Decoded JSON. The pairs of an object are the items of the Python dictionary, one for
  each key.
\<close>

datatype json = JObject "(string \<times> json) list" | JString string | JNumber int | JNull | JOther

text \<open>
  The library calls the delivery path makes, taken as parameters: \<^verbatim>\<open>json.loads\<close>
  (\<open>None\<close> is the decode error), pydantic's validation of a \<^verbatim>\<open>str\<close> field (\<open>None\<close> is
  the validation error) and \<^verbatim>\<open>jwt.decode\<close> with the server's key (\<open>None\<close> is
  \<^verbatim>\<open>JWTError\<close>, otherwise the claims of the token).
\<close>

record libs =
  json_loads :: "string \<Rightarrow> json option"
  pydantic_str :: "json \<Rightarrow> string option"
  jwt_decode :: "string \<Rightarrow> (string \<times> json) list option"

text \<open>\<^verbatim>\<open>payload.get("sub")\<close>: \<^verbatim>\<open>None\<close> for a missing key and for a JSON null.\<close>

definition payload_get :: "(string \<times> json) list \<Rightarrow> string \<Rightarrow> json option" where
  "payload_get payload k = (case map_of payload k of None \<Rightarrow> None | Some JNull \<Rightarrow> None | Some v \<Rightarrow> Some v)"

text \<open>
  \<^verbatim>\<open>get_user_from_token\<close> (auth.py, lines 42-56). Only \<^verbatim>\<open>JWTError\<close> is caught there; the
  validation error of \<^verbatim>\<open>TokenData\<close> and an exception of the query leave the function.
\<close>

definition get_user_from_token :: "libs \<Rightarrow> string \<Rightarrow> database \<Rightarrow> py_exception + db_user option" where
  "get_user_from_token L token db =
     (case jwt_decode L token of
        None \<Rightarrow> Inr None
      | Some payload \<Rightarrow>
          (case payload_get payload ''sub'' of
             None \<Rightarrow> Inr None
           | Some v \<Rightarrow>
               (case pydantic_str L v of
                  None \<Rightarrow> Inl ValidationError
                | Some username \<Rightarrow> get_user_by_username db username)))"

record endpoint_state =
  es_world :: world
  es_db :: database

definition ws_close :: "endpoint_state \<Rightarrow> websocket \<Rightarrow> int \<Rightarrow> endpoint_state" where
  "ws_close es websocket code =
     es\<lparr>es_world := (es_world es)\<lparr>wire := wire (es_world es) @ [WsClose (ws_id websocket) code]\<rparr>\<rparr>"

text \<open>\<^verbatim>\<open>websocket_auth\<close> (websocket\_manager.py, lines 159-170).\<close>

definition websocket_auth ::
  "libs \<Rightarrow> endpoint_state \<Rightarrow> websocket \<Rightarrow> string \<Rightarrow> endpoint_state \<times> db_user option" where
  "websocket_auth L es websocket token =
     (case get_user_from_token L token (es_db es) of
        Inl e \<Rightarrow> (ws_close es websocket WS_1011_INTERNAL_ERROR, None)
      | Inr None \<Rightarrow> (ws_close es websocket WS_1008_POLICY_VIOLATION, None)
      | Inr (Some user) \<Rightarrow> (es, Some user))"

section \<open>main.py: the WebSocket endpoint\<close>

text \<open>What \<^verbatim>\<open>receive_text()\<close> gives: a text frame, \<^verbatim>\<open>WebSocketDisconnect\<close>, or another exception.\<close>

datatype inbound = Text string | PeerDisconnect | ReceiveError

text \<open>
  How one iteration of the \<^verbatim>\<open>while True\<close> loop ends: it goes on to the next
  \<^verbatim>\<open>receive_text()\<close>, or \<^verbatim>\<open>WebSocketDisconnect\<close> leaves the loop.
\<close>

datatype loop_outcome = Continue | WebSocketDisconnect

text \<open>\<^verbatim>\<open>message_data["content"]\<close> on what \<^verbatim>\<open>json.loads\<close> returned.\<close>

definition subscript :: "json \<Rightarrow> string \<Rightarrow> py_exception + json" where
  "subscript v k =
     (case v of
        JObject items \<Rightarrow> (case map_of items k of None \<Rightarrow> Inl KeyError | Some x \<Rightarrow> Inr x)
      | _ \<Rightarrow> Inl TypeError)"

text \<open>Lines 177-184: from the text of a frame to the \<^verbatim>\<open>MessageCreate\<close> object.\<close>

definition decode_frame :: "libs \<Rightarrow> string \<Rightarrow> int \<Rightarrow> py_exception + MessageCreate" where
  "decode_frame L data channel_id =
     (case json_loads L data of
        None \<Rightarrow> Inl JSONDecodeError
      | Some message_data \<Rightarrow>
          (case subscript message_data ''content'' of
             Inl e \<Rightarrow> Inl e
           | Inr v \<Rightarrow>
               (case pydantic_str L v of
                  None \<Rightarrow> Inl ValidationError
                | Some s \<Rightarrow> Inr \<lparr>mc_content = s, mc_channel_id = channel_id\<rparr>)))"

text \<open>Lines 192-202: the outbound dictionary made from the stored message.\<close>

definition message_out :: "db_message \<Rightarrow> event" where
  "message_out db_message =
     MessageEvent \<lparr>d_id = m_id db_message, d_content = m_content db_message,
                   d_sender_id = m_sender_id db_message, d_channel_id = m_channel_id db_message,
                   d_status = status_value (m_status db_message),
                   d_created_at = m_created_at db_message\<rparr>"

text \<open>
  Lines 209-219, the handler of \<^verbatim>\<open>except Exception\<close>: the error frame is written on the
  endpoint's own socket; if that write raises, \<^verbatim>\<open>WebSocketDisconnect\<close> is raised.
\<close>

definition report_error :: "endpoint_state \<Rightarrow> websocket \<Rightarrow> endpoint_state \<times> loop_outcome" where
  "report_error es websocket =
     (if send_json_raises websocket then (es, WebSocketDisconnect)
      else (es\<lparr>es_world := (es_world es)\<lparr>wire := wire (es_world es) @
                 [WsSendJson (ws_id websocket) (ErrorEvent ''Error processing your message'')]\<rparr>\<rparr>,
            Continue))"

text \<open>
  Lines 176-219: one iteration of the loop. An exception of \<^verbatim>\<open>create_message\<close> or of
  \<^verbatim>\<open>publish\<close> goes to the same handler as a frame that does not decode.
\<close>

definition process_frame ::
  "libs \<Rightarrow> endpoint_state \<Rightarrow> websocket \<Rightarrow> int \<Rightarrow> int \<Rightarrow> inbound \<Rightarrow> endpoint_state \<times> loop_outcome" where
  "process_frame L es websocket user_id channel_id fr =
     (case fr of
        PeerDisconnect \<Rightarrow> (es, WebSocketDisconnect)
      | ReceiveError \<Rightarrow> report_error es websocket
      | Text data \<Rightarrow>
          (case decode_frame L data channel_id of
             Inl e \<Rightarrow> report_error es websocket
           | Inr message_create \<Rightarrow>
               (case create_message (es_db es) message_create user_id of
                  Inl (e, db1) \<Rightarrow> report_error (es\<lparr>es_db := db1\<rparr>) websocket
                | Inr (db1, db_message) \<Rightarrow>
                    (case publish (redis (es_world es)) (chat_topic channel_id) (message_out db_message) of
                       Inl (e, r) \<Rightarrow> report_error (es\<lparr>es_db := db1\<rparr>) websocket
                     | Inr r \<Rightarrow>
                         (es\<lparr>es_db := db1, es_world := (es_world es)\<lparr>redis := r\<rparr>\<rparr>, Continue)))))"

text \<open>
  The loop over the frames that arrive. With no frame left the task waits in
  \<^verbatim>\<open>receive_text()\<close>: the loop has not ended, which is \<open>Continue\<close>.
\<close>

fun receive_loop ::
  "libs \<Rightarrow> endpoint_state \<Rightarrow> websocket \<Rightarrow> int \<Rightarrow> int \<Rightarrow> inbound list \<Rightarrow> endpoint_state \<times> loop_outcome" where
  "receive_loop L es websocket user_id channel_id [] = (es, Continue)"
| "receive_loop L es websocket user_id channel_id (fr # frames) =
     (case process_frame L es websocket user_id channel_id fr of
        (es', Continue) \<Rightarrow> receive_loop L es' websocket user_id channel_id frames
      | (es', WebSocketDisconnect) \<Rightarrow> (es', WebSocketDisconnect))"

text \<open>
  Lines 149-158: authentication and the membership check. They stand before the
  \<^verbatim>\<open>try\<close> of line 160, so an exception of \<^verbatim>\<open>get_channel\<close> leaves the endpoint: that is
  \<open>Raised\<close>. \<open>Rejected\<close> is a \<^verbatim>\<open>return\<close> after the socket was closed.
\<close>

datatype handshake_result = Accepted db_user | Rejected | Raised py_exception

definition handshake ::
  "libs \<Rightarrow> endpoint_state \<Rightarrow> websocket \<Rightarrow> string \<Rightarrow> int \<Rightarrow> endpoint_state \<times> handshake_result" where
  "handshake L es websocket token channel_id =
     (case websocket_auth L es websocket token of
        (es1, None) \<Rightarrow> (es1, Rejected)
      | (es1, Some user) \<Rightarrow>
          (case get_channel (es_db es1) channel_id of
             Inl e \<Rightarrow> (es1, Raised e)
           | Inr None \<Rightarrow> (ws_close es1 websocket WS_1008_POLICY_VIOLATION, Rejected)
           | Inr (Some channel) \<Rightarrow>
               if u_id user \<notin> set (ch_members channel)
               then (ws_close es1 websocket WS_1008_POLICY_VIOLATION, Rejected)
               else (es1, Accepted user)))"

definition set_world :: "endpoint_state \<Rightarrow> world \<Rightarrow> endpoint_state" where
  "set_world es w = es\<lparr>es_world := w\<rparr>"

text \<open>
  Lines 221-232, the handler of \<^verbatim>\<open>WebSocketDisconnect\<close>. An exception of the last
  \<^verbatim>\<open>update_user_status\<close> leaves the endpoint: the second component is that exception.
\<close>

definition on_disconnect ::
  "(int set \<Rightarrow> int list) \<Rightarrow> endpoint_state \<Rightarrow> db_user \<Rightarrow> int \<Rightarrow> endpoint_state \<times> py_exception option" where
  "on_disconnect py_list es user channel_id =
     (let w1 = disconnect (es_world es) (u_id user) channel_id;
          w2 = fst (broadcast_to_channel py_list w1 channel_id
                      (Notification (u_username user @ '' left the chat'')));
          es2 = set_world es w2
      in if \<not> is_user_connected w2 (u_id user)
         then (case update_user_status (es_db es2) (u_id user) OFFLINE of
                 Inl (e, db1) \<Rightarrow> (es2\<lparr>es_db := db1\<rparr>, Some e)
               | Inr (db1, r) \<Rightarrow> (es2\<lparr>es_db := db1\<rparr>, None))
         else (es2, None))"

text \<open>
  \<^verbatim>\<open>websocket_endpoint\<close> (lines 142-238), run on the frames that arrive on its socket. It
  returns the state it leaves and the exception that left it, if one did. An exception
  between lines 160 and 220 other than \<^verbatim>\<open>WebSocketDisconnect\<close> is caught at line 233.
\<close>

definition websocket_endpoint ::
  "libs \<Rightarrow> (int set \<Rightarrow> int list) \<Rightarrow> endpoint_state \<Rightarrow> websocket \<Rightarrow> string \<Rightarrow> int \<Rightarrow> inbound list
     \<Rightarrow> endpoint_state \<times> py_exception option" where
  "websocket_endpoint L py_list es websocket token channel_id frames =
     (case handshake L es websocket token channel_id of
        (es1, Rejected) \<Rightarrow> (es1, None)
      | (es1, Raised e) \<Rightarrow> (es1, Some e)
      | (es1, Accepted user) \<Rightarrow>
          (let w1 = connect (es_world es1) websocket (u_id user) channel_id;
               w2 = fst (broadcast_to_channel py_list w1 channel_id
                           (Notification (u_username user @ '' joined the chat'')));
               es2 = set_world es1 w2
           in case update_user_status (es_db es2) (u_id user) ONLINE of
                Inl (e, db1) \<Rightarrow>
                  (set_world (es2\<lparr>es_db := db1\<rparr>) (disconnect (es_world es2) (u_id user) channel_id), None)
              | Inr (db1, r) \<Rightarrow>
                  (case receive_loop L (es2\<lparr>es_db := db1\<rparr>) websocket (u_id user) channel_id frames of
                     (es3, Continue) \<Rightarrow> (es3, None)
                   | (es3, WebSocketDisconnect) \<Rightarrow> on_disconnect py_list es3 user channel_id)))"

section \<open>Concrete inputs\<close>

text \<open>
  Three sockets (two healthy ones and one whose writes fail), a small database with two
  users, one channel, a message that was read and one that was only sent, and stand-ins
  for the library calls: every text but \<^verbatim>\<open>{\<close> decodes to an object with that text as
  its content, and the only token that verifies is \<^verbatim>\<open>good\<close>, issued to \<^verbatim>\<open>ann\<close>.
\<close>

definition ws_ok :: websocket where
  "ws_ok = \<lparr>ws_id = 1, client_state = CONNECTED, accept_raises = False, send_json_raises = False\<rparr>"

definition ws_second :: websocket where
  "ws_second = \<lparr>ws_id = 3, client_state = CONNECTED, accept_raises = False, send_json_raises = False\<rparr>"

definition ws_broken :: websocket where
  "ws_broken = \<lparr>ws_id = 2, client_state = CONNECTED, accept_raises = False, send_json_raises = True\<rparr>"

definition db0 :: database where
  "db0 = \<lparr>users = [\<lparr>u_id = 1, u_username = ''ann'', u_status = OFFLINE\<rparr>,
                   \<lparr>u_id = 2, u_username = ''bob'', u_status = OFFLINE\<rparr>],
          channels = [\<lparr>ch_id = 7, ch_members = [1, 2]\<rparr>],
          messages = [\<lparr>m_id = 1, m_content = ''hi'', m_status = READ, m_sender_id = 1,
                       m_channel_id = 7, m_created_at = 0\<rparr>,
                      \<lparr>m_id = 2, m_content = ''hello'', m_status = SENT, m_sender_id = 2,
                       m_channel_id = 7, m_created_at = 1\<rparr>],
          next_message_id = 3, now = 5, query_raises = False, commit_raises = False,
          refresh_raises = False\<rparr>"

definition es0 :: endpoint_state where
  "es0 = \<lparr>es_world = init_world, es_db = db0\<rparr>"

text \<open>Users 1 and 2 connected to channel 7, each with a healthy socket.\<close>

definition two_subscribers :: world where
  "two_subscribers = connect (connect init_world ws_ok 1 7) ws_second 2 7"

definition libs0 :: libs where
  "libs0 = \<lparr>json_loads = (\<lambda>s. if s = ''{'' then None else Some (JObject [(''content'', JString s)])),
            pydantic_str = (\<lambda>v. case v of JString s \<Rightarrow> Some s | _ \<Rightarrow> None),
            jwt_decode = (\<lambda>t. if t = ''good'' then Some [(''sub'', JString ''ann'')] else None)\<rparr>"

section \<open>The persistence layer\<close>

lemma create_message_status:
  "create_message db mc user_id = Inr (db', m) \<Longrightarrow>
     m_status m = SENT \<and> m_content m = mc_content mc \<and> m_sender_id m = user_id
     \<and> m_channel_id m = mc_channel_id mc \<and> messages db' = messages db @ [m]"
  by (auto simp: create_message_def Let_def split: if_splits)

lemma update_first_find:
  "find P xs = Some x \<Longrightarrow> f x \<in> set (update_first P f xs)"
  by (induction xs) (auto split: if_splits)

lemma rank_le_READ: "status_rank s \<le> 2"
  by (cases s) auto

text \<open>
  C9, as the code has it. \<^verbatim>\<open>create_message\<close> appends a message whose status is SENT.
  \<^verbatim>\<open>mark_messages_as_read\<close> keeps every message in its place and never lowers the rank
  of a status. \<^verbatim>\<open>update_message_status\<close> stores the status it is given on the message with
  that id, whatever the status of the message was: it has no check of the order.
\<close>

theorem status_updates:
  "(create_message db mc user_id = Inr (db1, m) \<longrightarrow>
      messages db1 = messages db @ [m] \<and> m_status m = SENT)
   \<and> (mark_messages_as_read db channel_id user_id = Inr (db2, ms) \<longrightarrow>
      length (messages db2) = length (messages db)
      \<and> (\<forall>i < length (messages db).
            m_id (messages db2 ! i) = m_id (messages db ! i)
            \<and> status_rank (m_status (messages db ! i)) \<le> status_rank (m_status (messages db2 ! i))))
   \<and> (update_message_status db message_id st = Inr (db3, Some m3) \<longrightarrow>
      m_id m3 = message_id \<and> m_status m3 = st \<and> m3 \<in> set (messages db3))"
proof (intro conjI impI)
  assume "create_message db mc user_id = Inr (db1, m)"
  then show "messages db1 = messages db @ [m]" "m_status m = SENT"
    by (auto simp: create_message_def Let_def split: if_splits)
next
  assume a: "mark_messages_as_read db channel_id user_id = Inr (db2, ms)"
  then show "length (messages db2) = length (messages db)"
    by (auto simp: mark_messages_as_read_def Let_def split: if_splits)
  from a show "\<forall>i < length (messages db).
            m_id (messages db2 ! i) = m_id (messages db ! i)
            \<and> status_rank (m_status (messages db ! i)) \<le> status_rank (m_status (messages db2 ! i))"
    by (auto simp: mark_messages_as_read_def Let_def rank_le_READ split: if_splits)
next
  assume a: "update_message_status db message_id st = Inr (db3, Some m3)"
  then obtain x where x: "find (\<lambda>m. m_id m = message_id) (messages db) = Some x"
    and m3: "m3 = x\<lparr>m_status := st\<rparr>"
    and db3: "messages db3 = update_first (\<lambda>m. m_id m = message_id) (\<lambda>m. m\<lparr>m_status := st\<rparr>) (messages db)"
    by (auto simp: update_message_status_def Let_def split: option.splits if_splits)
  from x have "m_id x = message_id" by (auto simp: find_Some_iff)
  then show "m_id m3 = message_id" "m_status m3 = st" using m3 by simp_all
  show "m3 \<in> set (messages db3)" unfolding m3 db3 using x by (rule update_first_find)
qed

text \<open>
  C9 as written fails: on the message of \<open>db0\<close>, which is READ,
  \<^verbatim>\<open>update_message_status(db, 1, MessageStatus.SENT)\<close> stores SENT.
\<close>

theorem status_can_regress:
  "update_message_status db0 1 SENT =
     Inr (db0\<lparr>messages := [\<lparr>m_id = 1, m_content = ''hi'', m_status = SENT, m_sender_id = 1,
                   m_channel_id = 7, m_created_at = 0\<rparr>,
                  \<lparr>m_id = 2, m_content = ''hello'', m_status = SENT, m_sender_id = 2,
                   m_channel_id = 7, m_created_at = 1\<rparr>]\<rparr>,
          Some \<lparr>m_id = 1, m_content = ''hi'', m_status = SENT, m_sender_id = 1,
                   m_channel_id = 7, m_created_at = 0\<rparr>)
   \<and> m_id (hd (messages db0)) = 1 \<and> m_status (hd (messages db0)) = READ
   \<and> status_rank SENT < status_rank READ"
  by (simp add: update_message_status_def db0_def sqlite_integer_def)

theorem status_updates_witness:
  "create_message db0 \<lparr>mc_content = ''yo'', mc_channel_id = 7\<rparr> 1 =
      Inr (db0\<lparr>messages := messages db0 @ [\<lparr>m_id = 3, m_content = ''yo'', m_status = SENT,
              m_sender_id = 1, m_channel_id = 7, m_created_at = 5\<rparr>], next_message_id := 4\<rparr>,
            \<lparr>m_id = 3, m_content = ''yo'', m_status = SENT, m_sender_id = 1, m_channel_id = 7,
             m_created_at = 5\<rparr>)
   \<and> mark_messages_as_read db0 7 1 =
      Inr (db0\<lparr>messages := [hd (messages db0), (messages db0 ! 1)\<lparr>m_status := READ\<rparr>]\<rparr>,
           [(messages db0 ! 1)\<lparr>m_status := READ\<rparr>])
   \<and> update_message_status db0 2 DELIVERED =
      Inr (db0\<lparr>messages := [hd (messages db0), (messages db0 ! 1)\<lparr>m_status := DELIVERED\<rparr>]\<rparr>,
           Some ((messages db0 ! 1)\<lparr>m_status := DELIVERED\<rparr>))
   \<and> status_rank (m_status (messages db0 ! 1)) \<le> status_rank READ"
proof -
  have h1: "create_message db0 \<lparr>mc_content = ''yo'', mc_channel_id = 7\<rparr> 1 =
      Inr (db0\<lparr>messages := messages db0 @ [\<lparr>m_id = 3, m_content = ''yo'', m_status = SENT,
              m_sender_id = 1, m_channel_id = 7, m_created_at = 5\<rparr>], next_message_id := 4\<rparr>,
            \<lparr>m_id = 3, m_content = ''yo'', m_status = SENT, m_sender_id = 1, m_channel_id = 7,
             m_created_at = 5\<rparr>)"
    by (simp add: create_message_def db0_def Let_def sqlite_integer_def)
  have h2: "mark_messages_as_read db0 7 1 =
      Inr (db0\<lparr>messages := [hd (messages db0), (messages db0 ! 1)\<lparr>m_status := READ\<rparr>]\<rparr>,
           [(messages db0 ! 1)\<lparr>m_status := READ\<rparr>])"
    by (simp add: mark_messages_as_read_def unread_from_others_def db0_def Let_def sqlite_integer_def)
  have h3: "update_message_status db0 2 DELIVERED =
      Inr (db0\<lparr>messages := [hd (messages db0), (messages db0 ! 1)\<lparr>m_status := DELIVERED\<rparr>]\<rparr>,
           Some ((messages db0 ! 1)\<lparr>m_status := DELIVERED\<rparr>))"
    by (simp add: update_message_status_def db0_def sqlite_integer_def)
  have l: "(1::nat) < length (messages db0)" by (simp add: db0_def)
  from status_updates[where db = db0 and user_id = 1 and channel_id = 7 and message_id = 2
      and st = DELIVERED and mc = "\<lparr>mc_content = ''yo'', mc_channel_id = 7\<rparr>"
      and ?db1.0 = "db0\<lparr>messages := messages db0 @ [\<lparr>m_id = 3, m_content = ''yo'', m_status = SENT,
              m_sender_id = 1, m_channel_id = 7, m_created_at = 5\<rparr>], next_message_id := 4\<rparr>"
      and m = "\<lparr>m_id = 3, m_content = ''yo'', m_status = SENT, m_sender_id = 1, m_channel_id = 7,
             m_created_at = 5\<rparr>"
      and ?db2.0 = "db0\<lparr>messages := [hd (messages db0), (messages db0 ! 1)\<lparr>m_status := READ\<rparr>]\<rparr>"
      and ms = "[(messages db0 ! 1)\<lparr>m_status := READ\<rparr>]"
      and ?db3.0 = "db0\<lparr>messages := [hd (messages db0), (messages db0 ! 1)\<lparr>m_status := DELIVERED\<rparr>]\<rparr>"
      and ?m3.0 = "(messages db0 ! 1)\<lparr>m_status := DELIVERED\<rparr>"] h1 h2 h3 l
  show ?thesis by (simp add: db0_def)
qed

section \<open>The receive loop of the endpoint\<close>

text \<open>
  C2. When the frame decodes and \<^verbatim>\<open>create_message\<close> returns the message \<open>m\<close>, the
  iteration publishes one event on the topic of the channel; its payload has the id,
  content, sender, channel and creation time of \<open>m\<close> and the status \<^verbatim>\<open>sent\<close>; \<open>m\<close> is
  stored with status SENT, the user as sender and the channel of the endpoint. (While the
  broker is down \<^verbatim>\<open>publish\<close> raises: nothing is published and the iteration ends in the
  error handler, with \<open>m\<close> stored.)
\<close>

theorem published_message_is_persisted:
  assumes "decode_frame L data channel_id = Inr mc"
    and "create_message (es_db es) mc user_id = Inr (db', m)"
  shows "fst (process_frame L es websocket user_id channel_id (Text data)) =
           (if broker_down (redis (es_world es))
            then fst (report_error (es\<lparr>es_db := db'\<rparr>) websocket)
            else
              es\<lparr>es_db := db', es_world := (es_world es)\<lparr>redis := (redis (es_world es))\<lparr>published :=
                published (redis (es_world es)) @
                  [(chat_topic channel_id,
                    MessageEvent \<lparr>d_id = m_id m, d_content = m_content m, d_sender_id = m_sender_id m,
                      d_channel_id = m_channel_id m, d_status = ''sent'',
                      d_created_at = m_created_at m\<rparr>)]\<rparr>\<rparr>\<rparr>)
         \<and> m_status m = SENT \<and> m_content m = mc_content mc \<and> m_sender_id m = user_id
         \<and> m_channel_id m = channel_id \<and> m \<in> set (messages db')"
proof -
  have c: "mc_channel_id mc = channel_id"
    using assms(1) by (auto simp: decode_frame_def split: option.splits sum.splits)
  from create_message_status[OF assms(2)] c assms show ?thesis
    by (simp add: process_frame_def publish_def message_out_def)
qed

theorem published_message_is_persisted_witness:
  "decode_frame libs0 ''yo'' 7 = Inr \<lparr>mc_content = ''yo'', mc_channel_id = 7\<rparr>
   \<and> create_message (es_db es0) \<lparr>mc_content = ''yo'', mc_channel_id = 7\<rparr> 1 =
       Inr (db0\<lparr>messages := messages db0 @ [\<lparr>m_id = 3, m_content = ''yo'', m_status = SENT,
              m_sender_id = 1, m_channel_id = 7, m_created_at = 5\<rparr>], next_message_id := 4\<rparr>,
            \<lparr>m_id = 3, m_content = ''yo'', m_status = SENT, m_sender_id = 1, m_channel_id = 7,
             m_created_at = 5\<rparr>)
   \<and> published (redis (es_world (fst (process_frame libs0 es0 ws_ok 1 7 (Text ''yo''))))) =
       [(''chat:7'', MessageEvent \<lparr>d_id = 3, d_content = ''yo'', d_sender_id = 1, d_channel_id = 7,
                       d_status = ''sent'', d_created_at = 5\<rparr>)]"
proof -
  have h1: "decode_frame libs0 ''yo'' 7 = Inr \<lparr>mc_content = ''yo'', mc_channel_id = 7\<rparr>"
    by (simp add: decode_frame_def libs0_def subscript_def)
  have h2: "create_message (es_db es0) \<lparr>mc_content = ''yo'', mc_channel_id = 7\<rparr> 1 =
       Inr (db0\<lparr>messages := messages db0 @ [\<lparr>m_id = 3, m_content = ''yo'', m_status = SENT,
              m_sender_id = 1, m_channel_id = 7, m_created_at = 5\<rparr>], next_message_id := 4\<rparr>,
            \<lparr>m_id = 3, m_content = ''yo'', m_status = SENT, m_sender_id = 1, m_channel_id = 7,
             m_created_at = 5\<rparr>)"
    by (simp add: create_message_def es0_def db0_def Let_def sqlite_integer_def)
  from published_message_is_persisted[OF h1 h2, of ws_ok] h1 h2 show ?thesis
    by (simp add: es0_def init_world_def redis_init_def chat_topic_def py_str_def str_nat.simps digit_char_def)
qed




text \<open>
  A transport that has failed: the frame \<^verbatim>\<open>{\<close> does not decode, the socket \<open>ws_broken\<close>
  refuses the error frame, and the loop ends there; the frame after it is never read.
\<close>

lemma error_report_can_end_the_loop:
  "decode_frame libs0 ''{'' 7 = Inl JSONDecodeError
   \<and> process_frame libs0 es0 ws_broken 1 7 (Text ''{'') = (es0, WebSocketDisconnect)
   \<and> receive_loop libs0 es0 ws_broken 1 7 [Text ''{'', Text ''yo''] = (es0, WebSocketDisconnect)"
  by (simp add: decode_frame_def libs0_def process_frame_def report_error_def ws_broken_def)

section \<open>The handshake of the endpoint\<close>

text \<open>
  C8, as the code has it. When \<^verbatim>\<open>get_user_from_token\<close> finds no user for the token, or
  the lookup of the channel returns no channel or a channel the user is not a member of,
  the whole endpoint does one thing: it closes the socket with code 1008. When the lookup
  of the channel raises, the endpoint ends with that exception and writes nothing on the
  socket. In both cases the dictionaries of the manager, the broker and the database are
  as before, whatever frames arrive: \<^verbatim>\<open>connect\<close> is not called.
\<close>

theorem rejected_handshake_registers_nothing:
  "((get_user_from_token L token (es_db es) = Inr None
      \<or> (\<exists>user. get_user_from_token L token (es_db es) = Inr (Some user)
           \<and> (get_channel (es_db es) channel_id = Inr None
                \<or> (\<exists>channel. get_channel (es_db es) channel_id = Inr (Some channel)
                      \<and> u_id user \<notin> set (ch_members channel)))))
     \<longrightarrow> websocket_endpoint L py_list es websocket token channel_id frames =
           (es\<lparr>es_world := (es_world es)\<lparr>wire := wire (es_world es) @
                [WsClose (ws_id websocket) WS_1008_POLICY_VIOLATION]\<rparr>\<rparr>, None))
   \<and> ((\<exists>user. get_user_from_token L token (es_db es) = Inr (Some user))
        \<and> get_channel (es_db es) channel_id = Inl e
     \<longrightarrow> websocket_endpoint L py_list es websocket token channel_id frames = (es, Some e))"
  by (auto simp: websocket_endpoint_def handshake_def websocket_auth_def ws_close_def
      split: option.splits sum.splits)

theorem rejected_handshake_registers_nothing_witness:
  "get_user_from_token libs0 ''bad'' (es_db es0) = Inr None
   \<and> websocket_endpoint libs0 (\<lambda>S. [1]) es0 ws_ok ''bad'' 7 [Text ''yo''] =
       (es0\<lparr>es_world := init_world\<lparr>wire := [WsClose 1 1008]\<rparr>\<rparr>, None)
   \<and> get_user_from_token libs0 ''good'' (es_db es0) = Inr (Some (hd (users db0)))
   \<and> get_channel (es_db es0) 8 = Inr None
   \<and> websocket_endpoint libs0 (\<lambda>S. [1]) es0 ws_ok ''good'' 8 [Text ''yo''] =
       (es0\<lparr>es_world := init_world\<lparr>wire := [WsClose 1 1008]\<rparr>\<rparr>, None)
   \<and> get_channel (es_db es0) 9223372036854775808 = Inl OverflowError
   \<and> websocket_endpoint libs0 (\<lambda>S. [1]) es0 ws_ok ''good'' 9223372036854775808 [Text ''yo''] =
       (es0, Some OverflowError)"
proof -
  have h: "get_user_from_token libs0 ''bad'' (es_db es0) = Inr None"
    by (simp add: get_user_from_token_def libs0_def)
  have g: "get_user_from_token libs0 ''good'' (es_db es0) = Inr (Some (hd (users db0)))"
    by (simp add: get_user_from_token_def get_user_by_username_def payload_get_def libs0_def
        es0_def db0_def)
  have c: "get_channel (es_db es0) 8 = Inr None"
    by (simp add: get_channel_def sqlite_integer_def es0_def db0_def)
  have q: "get_channel (es_db es0) 9223372036854775808 = Inl OverflowError"
    by (simp add: get_channel_def sqlite_integer_def)
  from rejected_handshake_registers_nothing[of libs0 "''bad''" es0 7 "\<lambda>S. [1]" ws_ok "[Text ''yo'']"]
    rejected_handshake_registers_nothing[of libs0 "''good''" es0 8 "\<lambda>S. [1]" ws_ok "[Text ''yo'']"]
    rejected_handshake_registers_nothing[of libs0 "''good''" es0 9223372036854775808 "\<lambda>S. [1]" ws_ok
      "[Text ''yo'']" OverflowError]
    h g c q
  show ?thesis
    by (simp add: es0_def ws_ok_def init_world_def WS_1008_POLICY_VIOLATION_def)
qed

text \<open>
  C8 as written fails: \<^verbatim>\<open>ann\<close> presents her token and asks for channel
  9223372036854775808, of which she is not a member (there is no such channel). SQLite
  cannot bind that id: \<^verbatim>\<open>get_channel\<close> raises \<^verbatim>\<open>OverflowError\<close> at line 155, before the
  \<^verbatim>\<open>try\<close>, and the endpoint ends with it. No close frame with 1008 is written.
\<close>

theorem unbindable_channel_is_not_closed:
  "get_user_from_token libs0 ''good'' (es_db es0) = Inr (Some \<lparr>u_id = 1, u_username = ''ann'', u_status = OFFLINE\<rparr>)
   \<and> find (\<lambda>ch. ch_id ch = 9223372036854775808) (channels (es_db es0)) = None
   \<and> get_channel (es_db es0) 9223372036854775808 = Inl OverflowError
   \<and> websocket_endpoint libs0 (\<lambda>S. [1]) es0 ws_ok ''good'' 9223372036854775808 [] = (es0, Some OverflowError)
   \<and> wire (es_world es0) = []"
  by (simp add: websocket_endpoint_def handshake_def websocket_auth_def get_user_from_token_def
      get_user_by_username_def payload_get_def get_channel_def sqlite_integer_def libs0_def
      es0_def db0_def init_world_def)

text \<open>
  When \<^verbatim>\<open>get_user_from_token\<close> raises, \<^verbatim>\<open>websocket_auth\<close> closes the socket with 1011 and
  the endpoint stops there as well.
\<close>

lemma auth_exception_closes_internal_error:
  "get_user_from_token L token (es_db es) = Inl e \<Longrightarrow>
   websocket_endpoint L py_list es websocket token channel_id frames =
     (es\<lparr>es_world := (es_world es)\<lparr>wire := wire (es_world es) @
          [WsClose (ws_id websocket) WS_1011_INTERNAL_ERROR]\<rparr>\<rparr>, None)"
  by (simp add: websocket_endpoint_def handshake_def websocket_auth_def ws_close_def)

section \<open>Decimal strings are injective\<close>

lemma digit_char_inj:
  assumes "a < 10" "b < 10" "digit_char a = digit_char b"
  shows "a = b"
proof -
  have d: "distinct ''0123456789''" by simp
  have l: "length ''0123456789'' = 10" by simp
  from assms show ?thesis
    unfolding digit_char_def using nth_eq_iff_index_eq[OF d, of a b] l by simp
qed

lemma digit_char_not_minus: "d < 10 \<Longrightarrow> digit_char d \<noteq> CHR ''-''"
proof -
  assume "d < 10"
  then have "digit_char d \<in> set ''0123456789''"
    unfolding digit_char_def by (intro nth_mem) simp
  then show ?thesis by auto
qed

lemma str_nat_not_Nil: "str_nat n \<noteq> []"
  by (subst str_nat.simps) simp

lemma str_nat_no_minus: "CHR ''-'' \<notin> set (str_nat n)"
proof (induction n rule: str_nat.induct)
  case (1 n)
  show ?case
  proof (cases "n < 10")
    case True
    then show ?thesis using digit_char_not_minus[of n] by (subst str_nat.simps) auto
  next
    case False
    then show ?thesis using 1 digit_char_not_minus[of "n mod 10"]
      by (subst str_nat.simps) auto
  qed
qed

lemma str_nat_inj: "str_nat a = str_nat b \<Longrightarrow> a = b"
proof (induction a arbitrary: b rule: str_nat.induct)
  case (1 a)
  note eq = \<open>str_nat a = str_nat b\<close>
  show ?case
  proof (cases "a < 10")
    case a: True
    show ?thesis
    proof (cases "b < 10")
      case True
      then show ?thesis using a eq digit_char_inj[of a b]
        by (simp add: str_nat.simps[of a] str_nat.simps[of b])
    next
      case False
      then show ?thesis using a eq str_nat_not_Nil[of "b div 10"]
        by (simp add: str_nat.simps[of a] str_nat.simps[of b])
    qed
  next
    case a: False
    show ?thesis
    proof (cases "b < 10")
      case True
      then show ?thesis using a eq str_nat_not_Nil[of "a div 10"]
        by (simp add: str_nat.simps[of a] str_nat.simps[of b])
    next
      case False
      with a eq have e: "str_nat (a div 10) = str_nat (b div 10)"
        and d: "digit_char (a mod 10) = digit_char (b mod 10)"
        by (simp_all add: str_nat.simps[of a] str_nat.simps[of b])
      from "1.IH"[OF a e] have q: "a div 10 = b div 10" .
      from d have r: "a mod 10 = b mod 10" by (intro digit_char_inj) simp_all
      from q r show ?thesis by (metis div_mult_mod_eq)
    qed
  qed
qed

lemma py_str_inj: "py_str a = py_str b \<Longrightarrow> a = b"
proof -
  assume eq: "py_str a = py_str b"
  consider "a < 0" "b < 0" | "a < 0" "\<not> b < 0" | "\<not> a < 0" "b < 0" | "\<not> a < 0" "\<not> b < 0"
    by blast
  then show ?thesis
  proof cases
    case 1
    with eq have "nat (- a) = nat (- b)" by (auto simp: py_str_def dest: str_nat_inj)
    with 1 show ?thesis by simp
  next
    case 2
    with eq have e: "CHR ''-'' # str_nat (nat (- a)) = str_nat (nat b)"
      by (simp add: py_str_def)
    have "CHR ''-'' \<in> set (CHR ''-'' # str_nat (nat (- a)))" by simp
    then have "CHR ''-'' \<in> set (str_nat (nat b))" unfolding e .
    then show ?thesis using str_nat_no_minus by blast
  next
    case 3
    with eq have e: "str_nat (nat a) = CHR ''-'' # str_nat (nat (- b))"
      by (simp add: py_str_def)
    have "CHR ''-'' \<in> set (CHR ''-'' # str_nat (nat (- b)))" by simp
    then have "CHR ''-'' \<in> set (str_nat (nat a))" unfolding e .
    then show ?thesis using str_nat_no_minus by blast
  next
    case 4
    with eq have "nat a = nat b" by (auto simp: py_str_def dest: str_nat_inj)
    with 4 show ?thesis by simp
  qed
qed

lemma py_str_eq_iff: "py_str a = py_str b \<longleftrightarrow> a = b"
  using py_str_inj by blast

text \<open>Two channels never share a topic, and two users never share a member of the online set.\<close>

lemma chat_topic_eq_iff: "chat_topic a = chat_topic b \<longleftrightarrow> a = b"
  by (simp add: chat_topic_def py_str_eq_iff)

section \<open>What the manager keeps true\<close>

text \<open>The definitions that evaluate the operations on the concrete inputs.\<close>

lemmas eval_defs = connect_def connect_locked_def connect_except_def truthy_def disconnect_def
  cleanup_user_def remove_subscriber_def redis_call_def subscribe_def unsubscribe_def
  add_to_set_def remove_from_set_def init_world_def redis_init_def subscribers_of_def
  Let_def ws_ok_def ws_second_def ws_broken_def chat_topic_def py_str_def str_nat.simps
  digit_char_def

lemma session_disconnect:
  "session (disconnect w u c) u' c' = (if u' = u \<and> c' = c then None else session w u' c')"
  by (auto simp: session_def disconnect_def cleanup_user_def remove_subscriber_def Let_def
      redis_call_def remove_from_set_def unsubscribe_def
      split: option.splits sum.splits prod.splits if_splits) (metis domIff singletonD subsetD)+

lemma status_disconnect:
  "connection_status (disconnect w u c) u = Some st \<Longrightarrow> st c \<noteq> Some True"
  by (auto simp: disconnect_def cleanup_user_def remove_subscriber_def Let_def
      redis_call_def remove_from_set_def unsubscribe_def
      split: option.splits sum.splits prod.splits if_splits)

lemma disconnect_absent:
  assumes "session w u c = None"
    and "\<And>st. connection_status w u = Some st \<Longrightarrow> st c \<noteq> Some True"
  shows "disconnect w u c = w"
proof -
  have a: "\<And>conns. active_connections w u = Some conns \<Longrightarrow> c \<notin> dom conns"
    using assms(1) by (auto simp: session_def)
  show ?thesis
  proof (cases "connection_status w u")
    case None
    then show ?thesis using a
      by (auto simp: disconnect_def split: option.splits)
  next
    case (Some st)
    show ?thesis
    proof (cases "c \<in> dom st")
      case True
      then have "st c = Some False" using assms(2)[OF Some] by (cases "st c") auto
      then have "st(c \<mapsto> False) = st" by (simp add: fun_upd_idem)
      then have "(connection_status w)(u \<mapsto> st(c \<mapsto> False)) = connection_status w"
        using Some by (simp add: fun_upd_idem)
      then show ?thesis using Some True a
        by (auto simp: disconnect_def split: option.splits)
    next
      case False
      then show ?thesis using Some a
        by (auto simp: disconnect_def split: option.splits)
    qed
  qed
qed

lemma disconnect_idem: "disconnect (disconnect w u c) u c = disconnect w u c"
  by (rule disconnect_absent) (simp_all add: session_disconnect status_disconnect)

lemma manager_inv_init: "manager_inv init_world"
  by (simp add: manager_inv_def init_world_def)

lemma connect_except_fields:
  "connect_except w ws = w"
  by (simp add: connect_except_def truthy_def)

lemma manager_inv_wire: "manager_inv (w\<lparr>wire := x\<rparr>) = manager_inv w"
  by (simp add: manager_inv_def session_def)

lemma manager_inv_redis: "manager_inv (w\<lparr>redis := x\<rparr>) = manager_inv w"
  by (simp add: manager_inv_def session_def)

lemma manager_inv_connect_locked:
  assumes "manager_inv w"
  shows "case connect_locked w ws u c of Inl w' \<Rightarrow> manager_inv w' | Inr w' \<Rightarrow> manager_inv w'"
  using assms
  apply (auto simp: connect_locked_def Let_def manager_inv_def session_def split: option.splits if_splits)
  done

lemma manager_inv_connect:
  assumes "manager_inv w"
  shows "manager_inv (connect w ws u c)"
proof -
  have "manager_inv (w\<lparr>wire := wire w @ [WsAccept (ws_id ws)]\<rparr>)"
    using assms by (simp add: manager_inv_wire)
  from manager_inv_connect_locked[OF this, of ws u c] assms show ?thesis
    by (auto simp: connect_def connect_except_fields Let_def manager_inv_wire manager_inv_redis
        redis_call_def split: sum.splits option.splits prod.splits if_splits)
qed

lemma upd_None_empty: "m(c := None) = Map.empty \<longleftrightarrow> (\<forall>x. x \<noteq> c \<longrightarrow> m x = None)"
  by (auto simp: fun_eq_iff)

lemma dom_subset_single: "dom m \<subseteq> {c} \<longleftrightarrow> (\<forall>x. x \<noteq> c \<longrightarrow> m x = None)"
  by (auto simp: subset_iff dom_def)

lemma ac_disconnect_other:
  "u' \<noteq> u \<Longrightarrow> active_connections (disconnect w u c) u' = active_connections w u'"
  by (auto simp: disconnect_def cleanup_user_def remove_subscriber_def Let_def
      redis_call_def remove_from_set_def unsubscribe_def
      upd_None_empty dom_subset_single split: option.splits sum.splits prod.splits if_splits)

lemma cs_disconnect_other:
  "u' \<noteq> u \<Longrightarrow> connection_status (disconnect w u c) u' = connection_status w u'"
  by (auto simp: disconnect_def cleanup_user_def remove_subscriber_def Let_def
      redis_call_def remove_from_set_def unsubscribe_def
      upd_None_empty dom_subset_single split: option.splits sum.splits prod.splits if_splits)

lemma ac_disconnect_same:
  "active_connections (disconnect w u c) u = Some conns' \<Longrightarrow>
     \<exists>conns. active_connections w u = Some conns \<and> conns' = conns(c := None)
        \<and> (c \<in> dom conns \<longrightarrow> dom conns' \<noteq> {})"
  by (auto simp: disconnect_def cleanup_user_def remove_subscriber_def Let_def
      redis_call_def remove_from_set_def unsubscribe_def
      upd_None_empty dom_subset_single split: option.splits sum.splits prod.splits if_splits)

lemma cs_disconnect_same:
  "connection_status (disconnect w u c) u = Some st' \<Longrightarrow>
     \<exists>st. connection_status w u = Some st \<and> st' = (if c \<in> dom st then st(c \<mapsto> False) else st)"
  by (auto simp: disconnect_def cleanup_user_def remove_subscriber_def Let_def
      redis_call_def remove_from_set_def unsubscribe_def
      upd_None_empty dom_subset_single split: option.splits sum.splits prod.splits if_splits)

lemma dom_disconnect:
  "dom (active_connections w) = dom (connection_status w) \<Longrightarrow>
   dom (active_connections (disconnect w u c)) = dom (connection_status (disconnect w u c))"
  by (auto simp: disconnect_def cleanup_user_def remove_subscriber_def Let_def
      redis_call_def remove_from_set_def unsubscribe_def
      upd_None_empty dom_subset_single split: option.splits sum.splits prod.splits if_splits)

lemma manager_inv_disconnect:
  assumes inv: "manager_inv w"
  shows "manager_inv (disconnect w u c)"
proof -
  let ?w = "disconnect w u c"
  have d: "dom (active_connections ?w) = dom (connection_status ?w)"
    using inv by (simp add: manager_inv_def dom_disconnect)
  have n: "dom conns \<noteq> {}" if h: "active_connections ?w u' = Some conns" for u' conns
  proof (cases "u' = u")
    case True
    with h obtain conns0 where c0: "active_connections w u = Some conns0"
      "conns = conns0(c := None)" "c \<in> dom conns0 \<longrightarrow> dom conns \<noteq> {}"
      using ac_disconnect_same by blast
    show ?thesis
    proof (cases "c \<in> dom conns0")
      case True
      then show ?thesis using c0 by simp
    next
      case False
      then have "conns = conns0" using c0 by (auto simp: fun_eq_iff)
      then show ?thesis using inv c0 by (simp add: manager_inv_def)
    qed
  next
    case False
    then show ?thesis using h inv by (simp add: ac_disconnect_other manager_inv_def)
  qed
  have s: "(st c' = Some True) = (session ?w u' c' \<noteq> None)"
    if h: "connection_status ?w u' = Some st" for u' st c'
  proof (cases "u' = u")
    case True
    with h obtain st0 where s0: "connection_status w u = Some st0"
      "st = (if c \<in> dom st0 then st0(c \<mapsto> False) else st0)"
      using cs_disconnect_same by blast
    have i: "(st0 c' = Some True) = (session w u c' \<noteq> None)"
      using inv s0 by (simp add: manager_inv_def)
    show ?thesis
    proof (cases "c' = c")
      case True
      have "st c \<noteq> Some True" using h \<open>u' = u\<close> status_disconnect by blast
      then show ?thesis using True \<open>u' = u\<close> by (simp add: session_disconnect)
    next
      case False
      then have "st c' = st0 c'" using s0 by simp
      then show ?thesis using False i \<open>u' = u\<close> by (simp add: session_disconnect)
    qed
  next
    case False
    then show ?thesis using h inv
      by (simp add: cs_disconnect_other session_disconnect manager_inv_def)
  qed
  show ?thesis unfolding manager_inv_def using d n s by blast
qed

lemma manager_inv_send:
  "manager_inv w \<Longrightarrow> manager_inv (fst (send_personal_message w m u c))"
  by (auto simp: send_personal_message_def manager_inv_disconnect manager_inv_wire
      split: option.splits)

lemma manager_inv_broadcast_loop:
  "manager_inv w \<Longrightarrow> manager_inv (fst (broadcast_loop w c m xs))"
proof (induction xs arbitrary: w)
  case Nil
  then show ?case by simp
next
  case (Cons x xs)
  let ?w1 = "fst (send_personal_message w m x c)"
  have 1: "manager_inv ?w1" using Cons.prems by (rule manager_inv_send)
  then have 2: "manager_inv (disconnect ?w1 x c)" by (rule manager_inv_disconnect)
  show ?case using Cons.IH[OF 1] Cons.IH[OF 2]
    by (simp add: split_beta Let_def)
qed

lemma manager_inv_broadcast:
  "manager_inv w \<Longrightarrow> manager_inv (fst (broadcast_to_channel py_list w c m))"
  by (simp add: broadcast_to_channel_def manager_inv_broadcast_loop split: option.splits)

lemma manager_inv_transport:
  "manager_inv w \<Longrightarrow> manager_inv (transport_change w u c s b)"
  by (auto simp: transport_change_def manager_inv_def session_def split: option.splits if_splits)

lemma reachable_manager_inv: "reachable w \<Longrightarrow> manager_inv w"
  by (induction rule: reachable.induct)
     (simp_all add: manager_inv_init manager_inv_connect manager_inv_disconnect manager_inv_send
        manager_inv_broadcast manager_inv_transport manager_inv_redis broker_change_def
        shared_sets_change_def)

text \<open>
  C10. In every state the manager can reach, \<^verbatim>\<open>active_connections\<close> and
  \<^verbatim>\<open>connection_status\<close> have the same user keys.
\<close>

theorem registry_keys_agree:
  "reachable w \<Longrightarrow> dom (active_connections w) = dom (connection_status w)"
  using reachable_manager_inv by (simp add: manager_inv_def)

theorem registry_keys_agree_witness:
  "reachable (disconnect (connect (connect init_world ws_ok 1 7) ws_second 2 7) 1 7)
   \<and> dom (active_connections (disconnect (connect (connect init_world ws_ok 1 7) ws_second 2 7) 1 7)) = {2}
   \<and> dom (connection_status (disconnect (connect (connect init_world ws_ok 1 7) ws_second 2 7) 1 7)) = {2}"
proof -
  have r: "reachable (disconnect (connect (connect init_world ws_ok 1 7) ws_second 2 7) 1 7)"
    by (intro reachable.intros)
  have d: "dom (active_connections (disconnect (connect (connect init_world ws_ok 1 7) ws_second 2 7) 1 7)) = {2}"
    by (simp add: eval_defs)
  from registry_keys_agree[OF r] r d show ?thesis by simp
qed

text \<open>
  C4. In every state the manager can reach, \<^verbatim>\<open>disconnect\<close> of a session that is not
  in the registry returns the state it was given: the three dictionaries, the broker and
  the sockets are untouched. A second \<^verbatim>\<open>disconnect\<close> of the same session changes nothing
  after the first.
\<close>

theorem disconnect_idempotent:
  "reachable w \<Longrightarrow>
     (session w user_id channel_id = None \<longrightarrow> disconnect w user_id channel_id = w)
     \<and> disconnect (disconnect w user_id channel_id) user_id channel_id = disconnect w user_id channel_id"
proof -
  assume "reachable w"
  then have "manager_inv w" by (rule reachable_manager_inv)
  then have "\<And>st. connection_status w user_id = Some st \<Longrightarrow> session w user_id channel_id = None
      \<Longrightarrow> st channel_id \<noteq> Some True"
    by (simp add: manager_inv_def)
  then show ?thesis
    using disconnect_absent[of w user_id channel_id] disconnect_idem by blast
qed

theorem disconnect_idempotent_witness:
  "reachable (disconnect (connect (connect init_world ws_ok 1 7) ws_second 1 8) 1 7)
   \<and> session (disconnect (connect (connect init_world ws_ok 1 7) ws_second 1 8) 1 7) 1 7 = None
   \<and> disconnect (disconnect (connect (connect init_world ws_ok 1 7) ws_second 1 8) 1 7) 1 7
       = disconnect (connect (connect init_world ws_ok 1 7) ws_second 1 8) 1 7
   \<and> connection_status (disconnect (connect (connect init_world ws_ok 1 7) ws_second 1 8) 1 7) 1
       = Some [7 \<mapsto> False, 8 \<mapsto> True]"
proof -
  have r: "reachable (disconnect (connect (connect init_world ws_ok 1 7) ws_second 1 8) 1 7)"
    by (intro reachable.intros)
  have s: "session (disconnect (connect (connect init_world ws_ok 1 7) ws_second 1 8) 1 7) 1 7 = None"
    by (simp add: session_disconnect)
  have c: "connection_status (disconnect (connect (connect init_world ws_ok 1 7) ws_second 1 8) 1 7) 1
       = Some [7 \<mapsto> False, 8 \<mapsto> True]"
    by (simp add: eval_defs fun_upd_twist)
  from disconnect_idempotent[OF r, of 1 7] r s c show ?thesis by simp
qed

section \<open>Sending and broadcasting\<close>

text \<open>
  The test \<^verbatim>\<open>not websocket.client_state.DISCONNECTED\<close> is false for every socket, so
  \<^verbatim>\<open>send_personal_message\<close> never reaches \<^verbatim>\<open>send_json\<close>: for a registered session it
  calls \<^verbatim>\<open>disconnect\<close>, and its result is always \<^verbatim>\<open>False\<close>.
\<close>

lemma send_personal_message_result:
  "send_personal_message w message user_id channel_id =
     (if session w user_id channel_id = None then w else disconnect w user_id channel_id, False)"
  by (auto simp: send_personal_message_def session_def truthy_def split: option.splits)

text \<open>
  C5, on the code. User 1 is connected to channel 7 with a socket that is in state
  CONNECTED and whose writes succeed. \<^verbatim>\<open>send_personal_message\<close> for that session
  returns \<^verbatim>\<open>False\<close>; nothing is written after the two frames of \<^verbatim>\<open>connect\<close>; the session
  is removed from the registry and \<^verbatim>\<open>is_user_in_channel\<close> is false afterwards.
\<close>

theorem healthy_send_returns_false:
  "session (connect init_world ws_ok 1 7) 1 7 = Some ws_ok
   \<and> client_state ws_ok = CONNECTED \<and> \<not> send_json_raises ws_ok
   \<and> snd (send_personal_message (connect init_world ws_ok 1 7) (Notification ''hello'') 1 7) = False
   \<and> wire (fst (send_personal_message (connect init_world ws_ok 1 7) (Notification ''hello'') 1 7))
       = [WsAccept 1, WsSendJson 1 (ConnectionStatus ''connected'' 7)]
   \<and> session (fst (send_personal_message (connect init_world ws_ok 1 7) (Notification ''hello'') 1 7)) 1 7
       = None
   \<and> \<not> is_user_in_channel
         (fst (send_personal_message (connect init_world ws_ok 1 7) (Notification ''hello'') 1 7)) 1 7"
  by (simp add: send_personal_message_def eval_defs session_def is_user_in_channel_def)

text \<open>
  C1, on the code. User 1 connects to channel 7, then connects to channel 7 again with a
  new socket, then disconnects. The subscriber set is \<open>{1}\<close> before and after the second
  \<^verbatim>\<open>connect\<close>, yet that call subscribes again (its test is that the set has one element):
  the broker then holds two subscriptions to \<^verbatim>\<open>chat:7\<close>. \<^verbatim>\<open>disconnect\<close> closes the one
  kept in \<open>pubsub_clients\<close>; the first one stays subscribed although the channel has no
  subscriber left.
\<close>

theorem resubscribe_on_reconnect:
  "channel_subscribers (connect init_world ws_ok 1 7) 7 = Some {1}
   \<and> broker_subscriptions (redis (connect init_world ws_ok 1 7)) = [(0, ''chat:7'')]
   \<and> channel_subscribers (connect (connect init_world ws_ok 1 7) ws_second 1 7) 7 = Some {1}
   \<and> broker_subscriptions (redis (connect (connect init_world ws_ok 1 7) ws_second 1 7))
       = [(0, ''chat:7''), (1, ''chat:7'')]
   \<and> channel_subscribers (disconnect (connect (connect init_world ws_ok 1 7) ws_second 1 7) 1 7) 7 = None
   \<and> broker_subscriptions (redis (disconnect (connect (connect init_world ws_ok 1 7) ws_second 1 7) 1 7))
       = [(0, ''chat:7'')]"
  by (simp add: eval_defs)

text \<open>
  When the confirmation frame of \<^verbatim>\<open>connect\<close> cannot be written, the user is in the
  subscriber set and no subscription was made.
\<close>

lemma unconfirmed_connect_has_no_subscription:
  "channel_subscribers (connect init_world ws_broken 1 7) 7 = Some {1}
   \<and> broker_subscriptions (redis (connect init_world ws_broken 1 7)) = []
   \<and> pubsub_clients (redis (connect init_world ws_broken 1 7)) (chat_topic 7) = None"
  by (simp add: eval_defs)

text \<open>
  What \<^verbatim>\<open>broadcast_to_channel\<close> does in any state and for any event: it makes one send for
  each user of the list, writes no frame on any socket, and leaves no session on the
  channel for the users of the list.
\<close>

lemma broadcast_loop_users:
  "map fst (snd (broadcast_loop w c m xs)) = xs"
  by (induction xs arbitrary: w) (simp_all add: split_beta Let_def)

lemma broadcast_loop_session:
  "session (fst (broadcast_loop w c m xs)) u c' =
     (if c' = c \<and> u \<in> set xs then None else session w u c')"
proof (induction xs arbitrary: w)
  case Nil
  then show ?case by simp
next
  case (Cons x xs)
  let ?w1 = "if session w x c = None then w else disconnect w x c"
  let ?w2 = "if x \<in> subscribers_of ?w1 c then disconnect ?w1 x c else ?w1"
  have s2: "session ?w2 u c' = (if u = x \<and> c' = c then None else session w u c')"
    by (simp add: session_disconnect)
  have "fst (broadcast_loop w c m (x # xs)) = fst (broadcast_loop ?w2 c m xs)"
    by (simp add: split_beta Let_def send_personal_message_result)
  then show ?case using Cons.IH[of ?w2] s2 by auto
qed

lemma wire_disconnect: "wire (disconnect w u c) = wire w"
  by (auto simp: disconnect_def cleanup_user_def remove_subscriber_def Let_def
      redis_call_def split: option.splits sum.splits prod.splits if_splits)

lemma wire_broadcast_loop: "wire (fst (broadcast_loop w c m xs)) = wire w"
proof (induction xs arbitrary: w)
  case Nil
  then show ?case by simp
next
  case (Cons x xs)
  let ?w1 = "if session w x c = None then w else disconnect w x c"
  let ?w2 = "if x \<in> subscribers_of ?w1 c then disconnect ?w1 x c else ?w1"
  have "fst (broadcast_loop w c m (x # xs)) = fst (broadcast_loop ?w2 c m xs)"
    by (simp add: split_beta Let_def send_personal_message_result)
  moreover have "wire ?w2 = wire w" by (simp add: wire_disconnect)
  ultimately show ?case using Cons.IH[of ?w2] by simp
qed

lemma broadcast_writes_nothing:
  "wire (fst (broadcast_to_channel py_list w channel_id message)) = wire w"
  by (simp add: broadcast_to_channel_def wire_broadcast_loop split: option.splits)

lemma broadcast_sends_all_fail:
  "(u, success) \<in> set (snd (broadcast_to_channel py_list w channel_id message)) \<Longrightarrow> \<not> success"
proof -
  have "(u, success) \<in> set (snd (broadcast_loop w' channel_id message xs)) \<Longrightarrow> \<not> success" for w' xs
    by (induction xs arbitrary: w')
       (auto simp: split_beta Let_def send_personal_message_result)
  then show "(u, success) \<in> set (snd (broadcast_to_channel py_list w channel_id message)) \<Longrightarrow> \<not> success"
    by (auto simp: broadcast_to_channel_def split: option.splits)
qed

text \<open>
  C3, on the code. Users 1 and 2 are in channel 7, each with a socket in state CONNECTED
  whose writes succeed. \<^verbatim>\<open>broadcast_to_channel\<close> of a notification makes one send for
  each of them, and both sends return \<^verbatim>\<open>False\<close>: no frame is written (the sockets have
  only the frames of the two \<^verbatim>\<open>connect\<close> calls), both sessions are removed, the channel
  has no subscriber set left and neither user is in the channel afterwards.
\<close>

theorem broadcast_drops_healthy_subscribers:
  "channel_subscribers two_subscribers 7 = Some {1, 2}
   \<and> session two_subscribers 1 7 = Some ws_ok \<and> session two_subscribers 2 7 = Some ws_second
   \<and> client_state ws_ok = CONNECTED \<and> \<not> send_json_raises ws_ok
   \<and> client_state ws_second = CONNECTED \<and> \<not> send_json_raises ws_second
   \<and> snd (broadcast_to_channel (\<lambda>S. [1, 2]) two_subscribers 7 (Notification ''hello''))
       = [(1, False), (2, False)]
   \<and> wire two_subscribers
       = [WsAccept 1, WsSendJson 1 (ConnectionStatus ''connected'' 7),
          WsAccept 3, WsSendJson 3 (ConnectionStatus ''connected'' 7)]
   \<and> wire (fst (broadcast_to_channel (\<lambda>S. [1, 2]) two_subscribers 7 (Notification ''hello'')))
       = wire two_subscribers
   \<and> session (fst (broadcast_to_channel (\<lambda>S. [1, 2]) two_subscribers 7 (Notification ''hello''))) 1 7
       = None
   \<and> session (fst (broadcast_to_channel (\<lambda>S. [1, 2]) two_subscribers 7 (Notification ''hello''))) 2 7
       = None
   \<and> channel_subscribers
        (fst (broadcast_to_channel (\<lambda>S. [1, 2]) two_subscribers 7 (Notification ''hello''))) 7 = None
   \<and> \<not> is_user_in_channel
        (fst (broadcast_to_channel (\<lambda>S. [1, 2]) two_subscribers 7 (Notification ''hello''))) 1 7
   \<and> \<not> is_user_in_channel
        (fst (broadcast_to_channel (\<lambda>S. [1, 2]) two_subscribers 7 (Notification ''hello''))) 2 7"
  by (simp add: two_subscribers_def broadcast_to_channel_def send_personal_message_def eval_defs
      session_def is_user_in_channel_def insert_commute)

section \<open>Presence\<close>

lemma is_user_connected_iff:
  assumes "manager_inv w"
  shows "is_user_connected w u \<longleftrightarrow> (\<exists>c. session w u c \<noteq> None)"
proof (cases "connection_status w u")
  case None
  then have "u \<notin> dom (active_connections w)"
    using assms by (auto simp: manager_inv_def)
  then have "\<And>c. session w u c = None" by (auto simp: session_def split: option.splits)
  then show ?thesis using None by (simp add: is_user_connected_def)
next
  case (Some st)
  have "True \<in> ran st \<longleftrightarrow> (\<exists>c. st c = Some True)" by (auto simp: ran_def)
  also have "\<dots> \<longleftrightarrow> (\<exists>c. session w u c \<noteq> None)"
    using assms Some by (simp add: manager_inv_def)
  finally show ?thesis using Some by (simp add: is_user_connected_def)
qed

text \<open>
  In every state the manager can reach, \<^verbatim>\<open>is_user_connected\<close> is true exactly for the users
  who have a session in the registry.
\<close>

lemma presence_is_registration:
  "reachable w \<Longrightarrow> is_user_connected w u \<longleftrightarrow> (\<exists>c. session w u c \<noteq> None)"
  by (rule is_user_connected_iff) (rule reachable_manager_inv)

text \<open>
  C6, on the code. On a fresh manager, user 1 connects to channel 7 with a socket that
  accepts the handshake and then refuses the confirmation frame. \<^verbatim>\<open>connect\<close> has
  registered the session by then and its \<^verbatim>\<open>except\<close> branch takes nothing back:
  \<^verbatim>\<open>is_user_connected\<close> is true for user 1. The call never reaches \<^verbatim>\<open>add_to_set\<close>: user 1 is
  not in the online set.
\<close>

theorem unconfirmed_connect_is_not_online:
  "accept_raises ws_broken = False \<and> send_json_raises ws_broken = True
   \<and> session (connect init_world ws_broken 1 7) 1 7 = Some ws_broken
   \<and> is_user_connected (connect init_world ws_broken 1 7) 1
   \<and> py_str 1 \<notin> online_users (connect init_world ws_broken 1 7)"
  by (simp add: eval_defs session_def is_user_connected_def online_users_def get_set_members_def)

text \<open>
  The endpoint on a healthy socket: \<^verbatim>\<open>ann\<close>, a member of channel 7, opens the channel
  and sends nothing yet. The notification that she joined is broadcast to the channel,
  that is to herself, and the send drops her session: while the endpoint waits for her
  first frame she is not connected, not in the channel and not in the online set.
\<close>

lemma join_broadcast_drops_the_user:
  "snd (websocket_endpoint libs0 (\<lambda>S. [1]) es0 ws_ok ''good'' 7 []) = None
   \<and> wire (es_world (fst (websocket_endpoint libs0 (\<lambda>S. [1]) es0 ws_ok ''good'' 7 [])))
       = [WsAccept 1, WsSendJson 1 (ConnectionStatus ''connected'' 7)]
   \<and> session (es_world (fst (websocket_endpoint libs0 (\<lambda>S. [1]) es0 ws_ok ''good'' 7 []))) 1 7 = None
   \<and> \<not> is_user_connected (es_world (fst (websocket_endpoint libs0 (\<lambda>S. [1]) es0 ws_ok ''good'' 7 []))) 1
   \<and> \<not> is_user_in_channel (es_world (fst (websocket_endpoint libs0 (\<lambda>S. [1]) es0 ws_ok ''good'' 7 []))) 1 7
   \<and> online_users (es_world (fst (websocket_endpoint libs0 (\<lambda>S. [1]) es0 ws_ok ''good'' 7 []))) = {}"
  by (simp add: websocket_endpoint_def handshake_def websocket_auth_def get_user_from_token_def
      payload_get_def get_user_by_username_def get_channel_def sqlite_integer_def
      update_user_status_def set_world_def libs0_def es0_def db0_def
      broadcast_to_channel_def send_personal_message_def eval_defs session_def
      is_user_connected_def is_user_in_channel_def online_users_def get_set_members_def)

end
